theory Spec2Isabelle
  imports Main
begin

section \<open>Date-times\<close>

text \<open>
  The scheduler works on Python \<open>datetime\<close> values. A \<open>datetime\<close> is a
  wall-clock reading (a date and a time of day) with an optional \<open>tzinfo\<close>.
  The wall clock is held as one integer: the number of microseconds since the start of
  day ordinal 0, so the date is \<open>wall div MICROS_PER_DAY\<close> and the time of day is
  \<open>wall mod MICROS_PER_DAY\<close>. Adding a \<open>timedelta\<close> is integer addition on that
  number, \<open>replace(hour=.., minute=.., second=.., microsecond=..)\<close> keeps the date and
  sets the time of day. A \<open>tzinfo\<close> is a fixed UTC offset in minutes. The year range of
  Python's \<open>datetime\<close> (an \<open>OverflowError\<close> outside it) is not modelled.
\<close>

definition MICROS_PER_MINUTE :: int where
  "MICROS_PER_MINUTE = 60000000"

definition MICROS_PER_DAY :: int where
  "MICROS_PER_DAY = 86400000000"

text \<open>A provider-supplied time, \<open>prayer["time"]\<close>: naive when \<open>dt_tzinfo\<close> is \<open>None\<close>.\<close>

record datetime =
  dt_wall :: int
  dt_tzinfo :: "int option"

text \<open>
  A zone-aware time: what \<open>dt_util.now()\<close> returns, and what every time becomes after
  the normalisation of \<open>_schedule_next_prayer\<close>.
\<close>

record aware =
  wall :: int
  utcoffset :: int

text \<open>
  \<open>if prayer_time.tzinfo is None: prayer_time = prayer_time.replace(tzinfo=now.tzinfo)\<close>
\<close>

definition localize :: "aware \<Rightarrow> datetime \<Rightarrow> aware" where
  "localize now pt =
     (case dt_tzinfo pt of
        None \<Rightarrow> \<lparr>wall = dt_wall pt, utcoffset = utcoffset now\<rparr>
      | Some z \<Rightarrow> \<lparr>wall = dt_wall pt, utcoffset = z\<rparr>)"

text \<open>\<open>t - timedelta(minutes=m)\<close> and \<open>t + timedelta(minutes=m)\<close>: wall-clock arithmetic,
  the \<open>tzinfo\<close> is kept.\<close>

definition minus_minutes :: "aware \<Rightarrow> int \<Rightarrow> aware" where
  "minus_minutes t m = t\<lparr>wall := wall t - m * MICROS_PER_MINUTE\<rparr>"

definition plus_minutes :: "aware \<Rightarrow> int \<Rightarrow> aware" where
  "plus_minutes t m = t\<lparr>wall := wall t + m * MICROS_PER_MINUTE\<rparr>"

text \<open>The instant an aware time denotes, in microseconds of UTC wall clock.\<close>

definition instant :: "aware \<Rightarrow> int" where
  "instant t = wall t - utcoffset t * MICROS_PER_MINUTE"

text \<open>\<open>a > b\<close> on aware datetimes compares the instants.\<close>

definition dt_gt :: "aware \<Rightarrow> aware \<Rightarrow> bool" where
  "dt_gt a b = (instant b < instant a)"

text \<open>
  \<open>(now + timedelta(days=1)).replace(hour=0, minute=1, second=0, microsecond=0)\<close>
\<close>

definition tomorrow_0001 :: "aware \<Rightarrow> aware" where
  "tomorrow_0001 now =
     now\<lparr>wall := ((wall now + MICROS_PER_DAY) div MICROS_PER_DAY) * MICROS_PER_DAY
                    + MICROS_PER_MINUTE\<rparr>"

section \<open>The data of one config entry\<close>

text \<open>One entry of \<open>coordinator.data.prayers\<close>: a dict with the keys name, time, enabled.\<close>

record prayer =
  prayer_name :: string
  prayer_time :: datetime
  prayer_enabled :: bool

text \<open>\<open>coordinator.data\<close>: the day's prayers and the set of names played today.\<close>

record prayer_data =
  prayers :: "prayer list"
  played_today :: "string set"

text \<open>
  The dict stored under \<open>hass.data[DOMAIN][entry.entry_id]\<close>. The coordinator is held
  by its \<open>data\<close> attribute, which is \<open>None\<close> until a refresh has succeeded. The two
  timer fields hold the unsubscribe handle that \<open>async_track_point_in_time\<close> returned.
\<close>

record store =
  coordinator_data :: "prayer_data option"
  is_playing :: bool
  currently_playing :: "string option"
  is_downloading :: bool
  audio_file :: "string option"
  fajr_audio_file :: "string option"
  unsub_timer :: "nat option"
  playback_reset_unsub :: "nat option"

text \<open>
  The callbacks this file hands to \<open>async_track_point_in_time\<close>: \<open>_prayer_callback\<close>
  (a closure over the chosen prayer), \<open>_midnight_refresh\<close>, and \<open>_reset_playing\<close>
  (a closure over the prayer name).
\<close>

datatype action =
  Prayer_Callback prayer
  | Midnight_Refresh
  | Reset_Playing string

text \<open>The calls of \<open>hass.services.async_call\<close> this file makes.\<close>

datatype service_call =
  Play_Media string string
  | Screen_On string
  | Launch_VLC string string
  | Media_Stop string
  | VLC_Stop string

text \<open>
  What the integration does to the outside, in the order it does it: a service call that was
  issued, a push of the coordinator data to its listeners (\<open>async_set_updated_data\<close>),
  and a background task running \<open>coordinator.async_refresh()\<close>.
\<close>

datatype effect =
  Service_Call service_call
  | Updated_Data
  | Refresh_Task

text \<open>
  The part of Home Assistant the integration touches: the entry's store (absent before
  setup), the point-in-time listeners that are armed (handle, point in time, callback), the
  next fresh handle, and the trace of effects.
\<close>

record hass =
  entry_store :: "store option"
  timers :: "(nat \<times> aware \<times> action) list"
  next_handle :: nat
  effects :: "effect list"

text \<open>
  The merged \<open>{**entry.data, **entry.options}\<close>. The two playback modes are the constants
  \<open>PLAYBACK_MEDIA_PLAYER\<close> and \<open>PLAYBACK_ANDROID_VLC\<close> of \<open>const.py\<close>; the mode
  key may be absent, and each reader has its own default. \<open>conf_offset_minutes\<close> is the
  value of \<open>config.get(CONF_OFFSET_MINUTES, DEFAULT_OFFSET_MINUTES)\<close> and
  \<open>conf_external_url\<close> the value of \<open>config.get(CONF_EXTERNAL_URL, "")\<close>.
\<close>

datatype playback_mode = PLAYBACK_MEDIA_PLAYER | PLAYBACK_ANDROID_VLC

record config =
  conf_playback_mode :: "playback_mode option"
  conf_media_player :: "string option"
  conf_notify_service :: "string option"
  conf_external_url :: string
  conf_offset_minutes :: int

text \<open>
  What the outside answers: whether a path exists on disk, what \<open>get_url\<close> returns for
  each of the three ways it is called (\<open>None\<close>: it raises), and whether a service call
  returns (\<open>False\<close>: it raises).
\<close>

datatype url_request = Internal_URL | External_URL | Default_URL

record env =
  path_exists :: "string \<Rightarrow> bool"
  get_url :: "url_request \<Rightarrow> string option"
  service_ok :: "service_call \<Rightarrow> bool"

section \<open>Timers\<close>

text \<open>\<open>async_track_point_in_time(hass, cb, t)\<close>: arms a one-shot listener and returns its
  handle.\<close>

definition async_track_point_in_time :: "action \<Rightarrow> aware \<Rightarrow> hass \<Rightarrow> nat \<times> hass" where
  "async_track_point_in_time cb t h =
     (next_handle h,
      h\<lparr>timers := timers h @ [(next_handle h, t, cb)], next_handle := Suc (next_handle h)\<rparr>)"

text \<open>Calling the handle: the listener is removed; nothing happens if it is gone already.\<close>

definition cancel_timer :: "nat \<Rightarrow> hass \<Rightarrow> hass" where
  "cancel_timer k h = h\<lparr>timers := filter (\<lambda>e. fst e \<noteq> k) (timers h)\<rparr>"

fun is_wakeup :: "nat \<times> aware \<times> action \<Rightarrow> bool" where
  "is_wakeup (k, t, Prayer_Callback p) = True"
| "is_wakeup (k, t, Midnight_Refresh) = True"
| "is_wakeup (k, t, Reset_Playing n) = False"

fun is_reset :: "nat \<times> aware \<times> action \<Rightarrow> bool" where
  "is_reset (k, t, Reset_Playing n) = True"
| "is_reset (k, t, Prayer_Callback p) = False"
| "is_reset (k, t, Midnight_Refresh) = False"

section \<open>Scheduling\<close>

text \<open>\<open>if coordinator.data: coordinator.async_set_updated_data(coordinator.data)\<close>, for
  the store contents \<open>st\<close>.\<close>

definition push_update :: "store \<Rightarrow> hass \<Rightarrow> hass" where
  "push_update st h =
     (case coordinator_data st of
        None \<Rightarrow> h
      | Some d \<Rightarrow> h\<lparr>effects := effects h @ [Updated_Data]\<rparr>)"

text \<open>\<open>target_time = prayer_time - timedelta(minutes=offset_minutes)\<close>, after the
  normalisation.\<close>

definition target_time :: "int \<Rightarrow> aware \<Rightarrow> prayer \<Rightarrow> aware" where
  "target_time off now p = minus_minutes (localize now (prayer_time p)) off"

text \<open>The loop of \<open>_schedule_next_prayer\<close>: the first prayer that passes the three tests.\<close>

fun find_next_prayer :: "int \<Rightarrow> aware \<Rightarrow> string set \<Rightarrow> prayer list \<Rightarrow> prayer option" where
  "find_next_prayer off now played [] = None"
| "find_next_prayer off now played (p # ps) =
     (if \<not> prayer_enabled p then find_next_prayer off now played ps
      else if prayer_name p \<in> played then find_next_prayer off now played ps
      else if dt_gt (target_time off now p) now then Some p
      else find_next_prayer off now played ps)"

text \<open>Storing the handle of a freshly armed wake-up timer in \<open>store["unsub_timer"]\<close>.\<close>

definition arm_wakeup :: "action \<Rightarrow> aware \<Rightarrow> store \<Rightarrow> hass \<Rightarrow> hass" where
  "arm_wakeup cb t st h =
     (case async_track_point_in_time cb t h of
        (k, h') \<Rightarrow> h'\<lparr>entry_store := Some (st\<lparr>unsub_timer := Some k\<rparr>)\<rparr>)"

definition schedule_next_prayer :: "config \<Rightarrow> aware \<Rightarrow> hass \<Rightarrow> hass" where
  "schedule_next_prayer cfg now h =
     (case entry_store h of
        None \<Rightarrow> h
      | Some st \<Rightarrow>
          let (st1, h1) =
                (case unsub_timer st of
                   None \<Rightarrow> (st, h)
                 | Some k \<Rightarrow>
                     (st\<lparr>unsub_timer := None\<rparr>,
                      (cancel_timer k h)\<lparr>entry_store := Some (st\<lparr>unsub_timer := None\<rparr>)\<rparr>))
          in (case coordinator_data st1 of
                None \<Rightarrow> h1
              | Some d \<Rightarrow>
                  (case find_next_prayer (conf_offset_minutes cfg) now (played_today d) (prayers d) of
                     None \<Rightarrow> arm_wakeup Midnight_Refresh (tomorrow_0001 now) st1 h1
                   | Some p \<Rightarrow>
                       arm_wakeup (Prayer_Callback p)
                         (target_time (conf_offset_minutes cfg) now p) st1 h1)))"

section \<open>Playback\<close>

text \<open>Python's truth value of an optional string: \<open>None\<close> and \<open>""\<close> are false.\<close>

fun truthy :: "string option \<Rightarrow> bool" where
  "truthy None = False"
| "truthy (Some s) = (s \<noteq> [])"

text \<open>\<open>os.path.basename\<close>: what follows the last slash.\<close>

definition basename :: "string \<Rightarrow> string" where
  "basename f = rev (takeWhile (\<lambda>c. c \<noteq> CHR ''/'') (rev f))"

text \<open>\<open>s.rstrip("/")\<close>\<close>

definition rstrip_slash :: "string \<Rightarrow> string" where
  "rstrip_slash s = rev (dropWhile (\<lambda>c. c = CHR ''/'') (rev s))"

text \<open>
  The guard at the head of \<open>_play_azan\<close>: \<open>None\<close> when the call returns as a
  duplicate, otherwise the store with the name marked as played (a real name, with
  coordinator data) or as it was (\<open>Test\<close>, or no coordinator data).
\<close>

definition dedup_guard :: "string \<Rightarrow> store \<Rightarrow> store option" where
  "dedup_guard n st =
     (case coordinator_data st of
        None \<Rightarrow> Some st
      | Some d \<Rightarrow>
          if n \<noteq> ''Test'' then
            (if n \<in> played_today d then None
             else Some (st\<lparr>coordinator_data := Some (d\<lparr>played_today := insert n (played_today d)\<rparr>)\<rparr>))
          else Some st)"

text \<open>
  \<open>audio_file = store.get("audio_file")\<close>, replaced by the Fajr file when the prayer is
  Fajr and \<open>store.get("fajr_audio_file")\<close> is true.
\<close>

definition pick_audio_file :: "string \<Rightarrow> store \<Rightarrow> string option" where
  "pick_audio_file n st =
     (if n = ''Fajr'' \<and> truthy (fajr_audio_file st) then fajr_audio_file st
      else audio_file st)"

text \<open>The base URL; \<open>None\<close> when the last \<open>get_url(hass)\<close> raises.\<close>

definition build_base_url :: "config \<Rightarrow> env \<Rightarrow> playback_mode \<Rightarrow> string option" where
  "build_base_url cfg env mode =
     (if mode = PLAYBACK_MEDIA_PLAYER then
        (case get_url env Internal_URL of
           Some u \<Rightarrow> Some u
         | None \<Rightarrow> get_url env Default_URL)
      else
        (let base_url = rstrip_slash (conf_external_url cfg)
         in if base_url \<noteq> [] then Some base_url
            else (case get_url env External_URL of
                    Some u \<Rightarrow> Some u
                  | None \<Rightarrow> get_url env Default_URL)))"

text \<open>
  The \<open>try\<close> block of \<open>_play_azan\<close>: the early return when no target is configured, or
  the calls that were issued, the last of which raised (\<open>Call_Raised\<close>) or all of which
  returned (\<open>Call_Done\<close>).
\<close>

datatype dispatch =
  Not_Configured
  | Call_Raised "service_call list"
  | Call_Done "service_call list"

definition dispatch_playback :: "config \<Rightarrow> env \<Rightarrow> playback_mode \<Rightarrow> string \<Rightarrow> dispatch" where
  "dispatch_playback cfg env mode media_url =
     (if mode = PLAYBACK_MEDIA_PLAYER then
        (case conf_media_player cfg of
           None \<Rightarrow> Not_Configured
         | Some media_player_entity \<Rightarrow>
             if media_player_entity = [] then Not_Configured
             else if service_ok env (Play_Media media_player_entity media_url)
               then Call_Done [Play_Media media_player_entity media_url]
               else Call_Raised [Play_Media media_player_entity media_url])
      else
        (case conf_notify_service cfg of
           None \<Rightarrow> Not_Configured
         | Some notify_service \<Rightarrow>
             if notify_service = [] then Not_Configured
             else if \<not> service_ok env (Screen_On notify_service)
               then Call_Raised [Screen_On notify_service]
             else if \<not> service_ok env (Launch_VLC notify_service media_url)
               then Call_Raised [Screen_On notify_service, Launch_VLC notify_service media_url]
             else Call_Done [Screen_On notify_service, Launch_VLC notify_service media_url]))"

definition issue :: "service_call list \<Rightarrow> hass \<Rightarrow> hass" where
  "issue cs h = h\<lparr>effects := effects h @ map Service_Call cs\<rparr>"

text \<open>
  The tail of \<open>_play_azan\<close>: the reset timer held in the store is cancelled, a new one is
  armed five minutes from now and its handle is stored.
\<close>

definition arm_reset :: "aware \<Rightarrow> string \<Rightarrow> store \<Rightarrow> hass \<Rightarrow> hass" where
  "arm_reset now n st h =
     (let h1 = (case playback_reset_unsub st of
                  None \<Rightarrow> h
                | Some k \<Rightarrow> cancel_timer k h)
      in (case async_track_point_in_time (Reset_Playing n) (plus_minutes now 5) h1 of
            (k, h2) \<Rightarrow> h2\<lparr>entry_store := Some (st\<lparr>playback_reset_unsub := Some k\<rparr>)\<rparr>))"

text \<open>
  How a call of \<open>_play_azan\<close> ends: it returns, or the \<open>NoURLAvailableError\<close> of the
  unguarded \<open>get_url(hass)\<close> leaves it. The state is the one reached at that point.
\<close>

datatype outcome = Returned | Raised_NoURLAvailable

text \<open>\<open>playback_mode = config.get(CONF_PLAYBACK_MODE, PLAYBACK_MEDIA_PLAYER)\<close> in
  \<open>_play_azan\<close>.\<close>

definition play_mode :: "config \<Rightarrow> playback_mode" where
  "play_mode cfg =
     (case conf_playback_mode cfg of
        None \<Rightarrow> PLAYBACK_MEDIA_PLAYER
      | Some m \<Rightarrow> m)"

text \<open>
  \<open>_play_azan\<close> from \<open># Mark as playing\<close> on, for the media URL that was built; \<open>st\<close>
  is the store of \<open>h\<close>. The status is set and pushed, the calls are dispatched, and then:
  nothing more when no target is configured; the status is cleared and pushed when a call
  raised; the reset timer is armed and the next prayer scheduled when the calls returned.
  The two readings of the clock on that last path (\<open>dt_util.now()\<close> for the reset timer
  and again in \<open>_schedule_next_prayer\<close>) both give \<open>now\<close>.
\<close>

definition start_playback ::
  "config \<Rightarrow> env \<Rightarrow> aware \<Rightarrow> string \<Rightarrow> string \<Rightarrow> store \<Rightarrow> hass \<Rightarrow> hass" where
  "start_playback cfg env now n media_url st h =
     (let st2 = st\<lparr>is_playing := True, currently_playing := Some n\<rparr>;
          h2 = push_update st2 (h\<lparr>entry_store := Some st2\<rparr>)
      in (case dispatch_playback cfg env (play_mode cfg) media_url of
            Not_Configured \<Rightarrow> h2
          | Call_Raised cs \<Rightarrow>
              let st3 = st2\<lparr>is_playing := False, currently_playing := None\<rparr>
              in push_update st3 ((issue cs h2)\<lparr>entry_store := Some st3\<rparr>)
          | Call_Done cs \<Rightarrow>
              schedule_next_prayer cfg now (arm_reset now n st2 (issue cs h2))))"

text \<open>
  \<open>_play_azan\<close> from the choice of the audio file to the media URL; \<open>st\<close> is the store
  of \<open>h\<close>.
\<close>

definition play_after_guard ::
  "config \<Rightarrow> env \<Rightarrow> aware \<Rightarrow> string \<Rightarrow> store \<Rightarrow> hass \<Rightarrow> outcome \<times> hass" where
  "play_after_guard cfg env now n st h =
     (case pick_audio_file n st of
        None \<Rightarrow> (Returned, h)
      | Some f \<Rightarrow>
          if f = [] \<or> \<not> path_exists env f then (Returned, h)
          else
            (case build_base_url cfg env (play_mode cfg) of
               None \<Rightarrow> (Raised_NoURLAvailable, h)
             | Some base_url \<Rightarrow>
                 (Returned,
                  start_playback cfg env now n (base_url @ ''/local/azan/'' @ basename f) st h)))"

definition play_azan :: "config \<Rightarrow> env \<Rightarrow> aware \<Rightarrow> string \<Rightarrow> hass \<Rightarrow> outcome \<times> hass" where
  "play_azan cfg env now n h =
     (case entry_store h of
        None \<Rightarrow> (Returned, h)
      | Some st \<Rightarrow>
          (case dedup_guard n st of
             None \<Rightarrow> (Returned, h)
           | Some st1 \<Rightarrow> play_after_guard cfg env now n st1 (h\<lparr>entry_store := Some st1\<rparr>)))"

text \<open>The callback \<open>_reset_playing\<close> armed for the prayer name \<open>n\<close>.\<close>

definition reset_playing :: "string \<Rightarrow> hass \<Rightarrow> hass" where
  "reset_playing n h =
     (case entry_store h of
        None \<Rightarrow> h
      | Some st \<Rightarrow>
          if currently_playing st = Some n then
            (let st1 = st\<lparr>is_playing := False, currently_playing := None\<rparr>
             in push_update st1 (h\<lparr>entry_store := Some st1\<rparr>))
          else h)"

text \<open>\<open>playback_mode = config.get(CONF_PLAYBACK_MODE, PLAYBACK_ANDROID_VLC)\<close> in
  \<open>_stop_playback\<close>.\<close>

definition stop_mode :: "config \<Rightarrow> playback_mode" where
  "stop_mode cfg =
     (case conf_playback_mode cfg of
        None \<Rightarrow> PLAYBACK_ANDROID_VLC
      | Some m \<Rightarrow> m)"

text \<open>
  \<open>_stop_playback\<close>. An exception of the stop call is caught and logged, so the state
  after the call does not depend on whether it raised.
\<close>

definition stop_playback :: "config \<Rightarrow> hass \<Rightarrow> hass" where
  "stop_playback cfg h =
     (case entry_store h of
        None \<Rightarrow> h
      | Some st \<Rightarrow>
          let st1 = st\<lparr>is_playing := False, currently_playing := None\<rparr>;
              cs = (if stop_mode cfg = PLAYBACK_MEDIA_PLAYER then
                      (case conf_media_player cfg of
                         None \<Rightarrow> []
                       | Some media_player_entity \<Rightarrow>
                           if media_player_entity = [] then [] else [Media_Stop media_player_entity])
                    else
                      (case conf_notify_service cfg of
                         None \<Rightarrow> []
                       | Some notify_service \<Rightarrow>
                           if notify_service = [] then [] else [VLC_Stop notify_service]))
          in push_update st1 (issue cs (h\<lparr>entry_store := Some st1\<rparr>)))"

section \<open>Refresh, timer callbacks and setup\<close>

text \<open>
  Modelled from the spec: \<open>coordinator.py\<close> (the class \<open>AzanCoordinator\<close>) is not among
  the sources. A refresh asks the time-table provider for today's table and replaces
  \<open>coordinator.data\<close> wholesale; when the provider fails (\<open>fetched = None\<close>) the
  previous table is kept.
\<close>

definition async_refresh :: "prayer_data option \<Rightarrow> hass \<Rightarrow> hass" where
  "async_refresh fetched h =
     (case fetched of
        None \<Rightarrow> h
      | Some d \<Rightarrow>
          (case entry_store h of
             None \<Rightarrow> h
           | Some st \<Rightarrow> h\<lparr>entry_store := Some (st\<lparr>coordinator_data := Some d\<rparr>)\<rparr>))"

text \<open>The service \<open>refresh_times\<close>: the refresh is awaited, then the next prayer is scheduled.\<close>

definition handle_refresh_times :: "config \<Rightarrow> aware \<Rightarrow> prayer_data option \<Rightarrow> hass \<Rightarrow> hass" where
  "handle_refresh_times cfg now fetched h =
     (case entry_store h of
        None \<Rightarrow> h
      | Some st \<Rightarrow> schedule_next_prayer cfg now (async_refresh fetched h))"

text \<open>
  \<open>_prayer_callback\<close>, the closure over \<open>next_prayer\<close>. The task it creates for
  \<open>_play_azan\<close> is run at once; an exception of the task stays in the task.
\<close>

definition prayer_callback :: "config \<Rightarrow> env \<Rightarrow> aware \<Rightarrow> prayer \<Rightarrow> hass \<Rightarrow> hass" where
  "prayer_callback cfg env now p h =
     (case entry_store h of
        None \<Rightarrow> h
      | Some st \<Rightarrow>
          (case coordinator_data st of
             None \<Rightarrow> snd (play_azan cfg env now (prayer_name p) h)
           | Some d \<Rightarrow>
               if prayer_name p \<in> played_today d then schedule_next_prayer cfg now h
               else snd (play_azan cfg env now (prayer_name p) h)))"

text \<open>
  \<open>_midnight_refresh\<close>: a task is created for the refresh, then \<open>_schedule_next_prayer\<close>
  is called in the same callback. \<open>fetched\<close> is the table the task has stored by the time
  of that call: \<open>None\<close> when the task has not finished by then, or has failed.
\<close>

definition midnight_refresh :: "config \<Rightarrow> aware \<Rightarrow> prayer_data option \<Rightarrow> hass \<Rightarrow> hass" where
  "midnight_refresh cfg now fetched h =
     schedule_next_prayer cfg now
       (async_refresh fetched (h\<lparr>effects := effects h @ [Refresh_Task]\<rparr>))"

text \<open>
  The listener with handle \<open>k\<close> fires: it is one-shot, so it leaves the armed listeners, and
  its callback runs. A handle that is not armed fires nothing.
\<close>

definition fire_timer ::
  "config \<Rightarrow> env \<Rightarrow> aware \<Rightarrow> prayer_data option \<Rightarrow> nat \<Rightarrow> hass \<Rightarrow> hass" where
  "fire_timer cfg env now fetched k h =
     (case find (\<lambda>e. fst e = k) (timers h) of
        None \<Rightarrow> h
      | Some (k', t, cb) \<Rightarrow>
          (case cb of
             Prayer_Callback p \<Rightarrow> prayer_callback cfg env now p (cancel_timer k h)
           | Midnight_Refresh \<Rightarrow> midnight_refresh cfg now fetched (cancel_timer k h)
           | Reset_Playing n \<Rightarrow> reset_playing n (cancel_timer k h)))"

text \<open>Home Assistant before the entry is set up.\<close>

definition fresh_hass :: hass where
  "fresh_hass = \<lparr>entry_store = None, timers = [], next_handle = 0, effects = []\<rparr>"

text \<open>The store \<open>async_setup_entry\<close> creates.\<close>

definition initial_store :: store where
  "initial_store =
     \<lparr>coordinator_data = None, is_playing = False, currently_playing = None,
      is_downloading = False, audio_file = None, fajr_audio_file = None,
      unsub_timer = None, playback_reset_unsub = None\<rparr>"

text \<open>
  \<open>async_setup_entry\<close>, as far as the scheduler goes: the store is created, the first
  refresh is awaited (when it fails the setup is left by \<open>ConfigEntryNotReady\<close>, with the
  store in place), and the first wake-up is scheduled.
\<close>

definition async_setup_entry :: "config \<Rightarrow> aware \<Rightarrow> prayer_data option \<Rightarrow> hass \<Rightarrow> hass" where
  "async_setup_entry cfg now fetched h =
     (let h1 = h\<lparr>entry_store := Some initial_store\<rparr>
      in (case fetched of
            None \<Rightarrow> h1
          | Some d \<Rightarrow> schedule_next_prayer cfg now (async_refresh (Some d) h1)))"

text \<open>
  The background download task stores a path: \<open>store["audio_file"] = path\<close> (the general
  azan) or \<open>store["fajr_audio_file"] = path\<close>.
\<close>

definition store_audio_file :: "bool \<Rightarrow> string \<Rightarrow> hass \<Rightarrow> hass" where
  "store_audio_file fajr path h =
     (case entry_store h of
        None \<Rightarrow> h
      | Some st \<Rightarrow>
          if fajr then h\<lparr>entry_store := Some (st\<lparr>fajr_audio_file := Some path\<rparr>)\<rparr>
          else h\<lparr>entry_store := Some (st\<lparr>audio_file := Some path\<rparr>)\<rparr>)"

text \<open>
  The states of one schedule instance: the state after setup, and every state that a
  trigger, a stop, a refresh, a timer that fires, a refresh task that finishes or a
  finished download leads to. Each operation runs to its end before the next starts.
\<close>

inductive reachable :: "hass \<Rightarrow> bool" where
  after_setup: "reachable (async_setup_entry cfg now fetched fresh_hass)"
| after_trigger: "reachable h \<Longrightarrow> reachable (snd (play_azan cfg env now n h))"
| after_stop: "reachable h \<Longrightarrow> reachable (stop_playback cfg h)"
| after_refresh: "reachable h \<Longrightarrow> reachable (handle_refresh_times cfg now fetched h)"
| after_fire: "reachable h \<Longrightarrow> reachable (fire_timer cfg env now fetched k h)"
| after_refreshed: "reachable h \<Longrightarrow> reachable (async_refresh fetched h)"
| after_downloaded: "reachable h \<Longrightarrow> reachable (store_audio_file fajr path h)"

section \<open>The notions the claims are stated in\<close>

text \<open>
  An event qualifies when it is enabled, its name is not in the played set, and its
  scheduled time, normalised to the local zone and moved back by the offset, is after now.
\<close>

definition eligible :: "int \<Rightarrow> aware \<Rightarrow> string set \<Rightarrow> prayer \<Rightarrow> bool" where
  "eligible off now played p =
     (prayer_enabled p \<and> prayer_name p \<notin> played
      \<and> dt_gt (minus_minutes (localize now (prayer_time p)) off) now)"

text \<open>The armed listeners once the wake-up handle held in the store has been called.\<close>

definition wakeup_cancelled :: "store \<Rightarrow> hass \<Rightarrow> (nat \<times> aware \<times> action) list" where
  "wakeup_cancelled st h =
     (case unsub_timer st of
        None \<Rightarrow> timers h
      | Some k \<Rightarrow> filter (\<lambda>e. fst e \<noteq> k) (timers h))"

text \<open>The playback status is \<open>Idle\<close>: \<open>is_playing\<close> false, \<open>currently_playing\<close> cleared.\<close>

definition idle :: "store \<Rightarrow> store" where
  "idle st = st\<lparr>is_playing := False, currently_playing := None\<rparr>"

text \<open>The playback status is \<open>Playing(x)\<close>.\<close>

definition playing :: "string \<Rightarrow> store \<Rightarrow> bool" where
  "playing x st = (is_playing st \<and> currently_playing st = Some x)"

text \<open>
  The discipline of the two timer handles: the armed listeners have distinct handles below
  the next fresh one, so have the handles held in the store, a listener is a wake-up exactly
  when the store's wake-up handle is its handle, and a reset timer exactly when the store's
  reset handle is its handle.
\<close>

definition handles_ok ::
  "nat option \<Rightarrow> nat option \<Rightarrow> (nat \<times> aware \<times> action) list \<Rightarrow> nat \<Rightarrow> bool" where
  "handles_ok u r ts nh =
     (distinct (map fst ts)
      \<and> list_all (\<lambda>e. fst e < nh) ts
      \<and> (case u of None \<Rightarrow> True | Some k \<Rightarrow> k < nh)
      \<and> (case r of None \<Rightarrow> True | Some k \<Rightarrow> k < nh)
      \<and> list_all (\<lambda>e. is_wakeup e = (u = Some (fst e))) ts
      \<and> list_all (\<lambda>e. is_reset e = (r = Some (fst e))) ts)"

text \<open>The invariant of a schedule instance: the store exists, the handles are disciplined,
  and \<open>is_playing\<close> is set exactly when \<open>currently_playing\<close> is.\<close>

definition hass_inv :: "hass \<Rightarrow> bool" where
  "hass_inv h =
     (case entry_store h of
        None \<Rightarrow> False
      | Some st \<Rightarrow>
          handles_ok (unsub_timer st) (playback_reset_unsub st) (timers h) (next_handle h)
          \<and> is_playing st = (currently_playing st \<noteq> None))"

section \<open>Example inputs\<close>

definition clock :: "int \<Rightarrow> int \<Rightarrow> int \<Rightarrow> int" where
  "clock day hh mm = day * MICROS_PER_DAY + (hh * 60 + mm) * MICROS_PER_MINUTE"

definition local_at :: "int \<Rightarrow> int \<Rightarrow> int \<Rightarrow> aware" where
  "local_at day hh mm = \<lparr>wall = clock day hh mm, utcoffset = 180\<rparr>"

definition naive_at :: "int \<Rightarrow> int \<Rightarrow> int \<Rightarrow> datetime" where
  "naive_at day hh mm = \<lparr>dt_wall = clock day hh mm, dt_tzinfo = None\<rparr>"

definition example_prayer :: "string \<Rightarrow> int \<Rightarrow> int \<Rightarrow> prayer" where
  "example_prayer n hh mm =
     \<lparr>prayer_name = n, prayer_time = naive_at 100 hh mm, prayer_enabled = True\<rparr>"

definition example_config :: "string option \<Rightarrow> config" where
  "example_config media_player =
     \<lparr>conf_playback_mode = None, conf_media_player = media_player,
      conf_notify_service = None, conf_external_url = [], conf_offset_minutes = 10\<rparr>"

definition example_env :: "bool \<Rightarrow> env" where
  "example_env ok =
     \<lparr>path_exists = (\<lambda>f. True), get_url = (\<lambda>r. Some ''http://ha.local:8123''),
      service_ok = (\<lambda>c. ok)\<rparr>"

definition example_store :: "prayer list \<Rightarrow> string set \<Rightarrow> string option \<Rightarrow> store" where
  "example_store ps played audio =
     initial_store\<lparr>coordinator_data := Some \<lparr>prayers = ps, played_today = played\<rparr>,
                    audio_file := audio\<rparr>"

definition example_hass :: "prayer list \<Rightarrow> string set \<Rightarrow> string option \<Rightarrow> hass" where
  "example_hass ps played audio =
     \<lparr>entry_store = Some (example_store ps played audio),
      timers = [], next_handle = 0, effects = []\<rparr>"

text \<open>Maghrib at 18:00 and Isha at 19:30, scheduled at 17:00: the wake-up for Maghrib is
  armed, with handle 0.\<close>

definition maghrib_armed :: "string option \<Rightarrow> hass" where
  "maghrib_armed audio =
     schedule_next_prayer (example_config (Some ''media_player.hall'')) (local_at 100 17 0)
       (example_hass [example_prayer ''Maghrib'' 18 0, example_prayer ''Isha'' 19 30] {} audio)"

text \<open>The state after a Test trigger at 04:00 that played.\<close>

definition test_playing :: hass where
  "test_playing =
     snd (play_azan (example_config (Some ''media_player.hall'')) (example_env True)
            (local_at 100 4 0) ''Test''
            (example_hass [] {} (Some ''/config/www/azan/azan.mp3'')))"

text \<open>The entry set up at 04:00 with Fajr at 05:00 and Dhuhr at 12:00, the azan file downloaded.\<close>

definition example_setup :: hass where
  "example_setup =
     store_audio_file False ''/config/www/azan/azan.mp3''
       (async_setup_entry (example_config (Some ''media_player.hall'')) (local_at 100 4 0)
          (Some \<lparr>prayers = [example_prayer ''Fajr'' 5 0, example_prayer ''Dhuhr'' 12 0],
                 played_today = {}\<rparr>)
          fresh_hass)"

text \<open>A Test trigger at 04:48 that played, then a Fajr trigger at 04:50 that played: the
  Fajr playback has superseded the Test playback.\<close>

definition example_superseded :: hass where
  "example_superseded =
     snd (play_azan (example_config (Some ''media_player.hall'')) (example_env True)
            (local_at 100 4 50) ''Fajr''
            (snd (play_azan (example_config (Some ''media_player.hall'')) (example_env True)
                    (local_at 100 4 48) ''Test'' example_setup)))"

section \<open>The scheduler picks the first eligible prayer\<close>

lemmas example_defs = example_hass_def example_store_def example_config_def example_prayer_def
  example_env_def initial_store_def naive_at_def local_at_def clock_def
  MICROS_PER_DAY_def MICROS_PER_MINUTE_def

lemma find_next_prayer_skips:
  "\<not> eligible off now played q \<Longrightarrow>
   find_next_prayer off now played (q # ps) = find_next_prayer off now played ps"
  by (auto simp add: eligible_def target_time_def)

lemma find_next_prayer_takes:
  "eligible off now played p \<Longrightarrow> find_next_prayer off now played (p # ps) = Some p"
  by (simp add: eligible_def target_time_def)

lemma find_next_prayer_first:
  assumes "\<forall>q \<in> set pre. \<not> eligible off now played q" and "eligible off now played p"
  shows "find_next_prayer off now played (pre @ p # post) = Some p"
  using assms
proof (induction pre)
  case Nil
  then show ?case by (simp only: append_Nil find_next_prayer_takes)
next
  case (Cons q pre)
  then show ?case by (simp add: find_next_prayer_skips del: find_next_prayer.simps)
qed


lemma schedule_next_prayer_found:
  assumes "entry_store h = Some st" and "coordinator_data st = Some d"
    and "find_next_prayer (conf_offset_minutes cfg) now (played_today d) (prayers d) = Some p"
  shows "schedule_next_prayer cfg now h =
           h\<lparr>entry_store := Some (st\<lparr>unsub_timer := Some (next_handle h)\<rparr>),
             timers := wakeup_cancelled st h
                        @ [(next_handle h, target_time (conf_offset_minutes cfg) now p,
                            Prayer_Callback p)],
             next_handle := Suc (next_handle h)\<rparr>"
  using assms
  by (cases "unsub_timer st")
     (simp_all add: schedule_next_prayer_def arm_wakeup_def async_track_point_in_time_def
        cancel_timer_def wakeup_cancelled_def)

lemma schedule_next_prayer_rollover:
  assumes "entry_store h = Some st" and "coordinator_data st = Some d"
    and "find_next_prayer (conf_offset_minutes cfg) now (played_today d) (prayers d) = None"
  shows "schedule_next_prayer cfg now h =
           h\<lparr>entry_store := Some (st\<lparr>unsub_timer := Some (next_handle h)\<rparr>),
             timers := wakeup_cancelled st h
                        @ [(next_handle h, tomorrow_0001 now, Midnight_Refresh)],
             next_handle := Suc (next_handle h)\<rparr>"
  using assms
  by (cases "unsub_timer st")
     (simp_all add: schedule_next_prayer_def arm_wakeup_def async_track_point_in_time_def
        cancel_timer_def wakeup_cancelled_def)

text \<open>
  Claim C3. When the entry has a store and the coordinator has data, and the prayer list is
  \<open>pre @ p # post\<close> where no prayer of \<open>pre\<close> qualifies and \<open>p\<close> does (enabled, not
  played today, and its time, given the local zone when it has none and then moved back by
  the offset, after now), \<open>_schedule_next_prayer\<close> cancels the wake-up timer it holds and
  arms one new wake-up: its callback is bound to \<open>p\<close>, its wall-clock time is the scheduled
  time minus the offset, in the zone of the scheduled time, or in the zone of now when the
  scheduled time has none; its handle is stored in \<open>unsub_timer\<close>.
\<close>

theorem schedule_next_prayer_arms_first_eligible:
  assumes "entry_store h = Some st" and "coordinator_data st = Some d"
    and "prayers d = pre @ p # post"
    and "\<forall>q \<in> set pre. \<not> eligible (conf_offset_minutes cfg) now (played_today d) q"
    and "eligible (conf_offset_minutes cfg) now (played_today d) p"
  shows "schedule_next_prayer cfg now h =
           h\<lparr>entry_store := Some (st\<lparr>unsub_timer := Some (next_handle h)\<rparr>),
             timers := wakeup_cancelled st h
                        @ [(next_handle h,
                            \<lparr>wall = dt_wall (prayer_time p)
                                      - conf_offset_minutes cfg * MICROS_PER_MINUTE,
                             utcoffset = (case dt_tzinfo (prayer_time p) of
                                            None \<Rightarrow> utcoffset now
                                          | Some z \<Rightarrow> z)\<rparr>,
                            Prayer_Callback p)],
             next_handle := Suc (next_handle h)\<rparr>"
proof -
  have "find_next_prayer (conf_offset_minutes cfg) now (played_today d) (prayers d) = Some p"
    using assms(3-5) by (simp add: find_next_prayer_first)
  then have "schedule_next_prayer cfg now h =
           h\<lparr>entry_store := Some (st\<lparr>unsub_timer := Some (next_handle h)\<rparr>),
             timers := wakeup_cancelled st h
                        @ [(next_handle h, target_time (conf_offset_minutes cfg) now p,
                            Prayer_Callback p)],
             next_handle := Suc (next_handle h)\<rparr>"
    using assms(1,2) by (rule schedule_next_prayer_found[rotated 2])
  moreover have "target_time (conf_offset_minutes cfg) now p =
      \<lparr>wall = dt_wall (prayer_time p) - conf_offset_minutes cfg * MICROS_PER_MINUTE,
       utcoffset = (case dt_tzinfo (prayer_time p) of None \<Rightarrow> utcoffset now | Some z \<Rightarrow> z)\<rparr>"
    by (simp add: target_time_def minus_minutes_def localize_def split: option.split)
  ultimately show ?thesis by simp
qed

text \<open>
  Scenario A of the specification: Fajr at 05:00 and Dhuhr at 12:00, both enabled and
  without zone, offset 10 minutes, now 04:00. The one armed timer is at 04:50 local time,
  bound to Fajr.
\<close>

theorem schedule_next_prayer_scenario_A:
  "schedule_next_prayer (example_config None) (local_at 100 4 0)
     (example_hass [example_prayer ''Fajr'' 5 0, example_prayer ''Dhuhr'' 12 0] {} None)
   = (example_hass [example_prayer ''Fajr'' 5 0, example_prayer ''Dhuhr'' 12 0] {} None)
       \<lparr>entry_store :=
          Some ((example_store [example_prayer ''Fajr'' 5 0, example_prayer ''Dhuhr'' 12 0] {} None)
                  \<lparr>unsub_timer := Some 0\<rparr>),
        timers := [(0, local_at 100 4 50, Prayer_Callback (example_prayer ''Fajr'' 5 0))],
        next_handle := 1\<rparr>"
  using schedule_next_prayer_arms_first_eligible
    [of "example_hass [example_prayer ''Fajr'' 5 0, example_prayer ''Dhuhr'' 12 0] {} None"
        "example_store [example_prayer ''Fajr'' 5 0, example_prayer ''Dhuhr'' 12 0] {} None"
        "\<lparr>prayers = [example_prayer ''Fajr'' 5 0, example_prayer ''Dhuhr'' 12 0],
          played_today = {}\<rparr>"
        "[]" "example_prayer ''Fajr'' 5 0" "[example_prayer ''Dhuhr'' 12 0]"
        "example_config None" "local_at 100 4 0"]
  by (simp add: example_defs eligible_def dt_gt_def instant_def minus_minutes_def localize_def
        wakeup_cancelled_def)

section \<open>The rollover timer\<close>








section \<open>The dedup guard\<close>

lemmas model_defs = play_azan_def dedup_guard_def play_after_guard_def pick_audio_file_def
  build_base_url_def play_mode_def start_playback_def dispatch_playback_def push_update_def
  issue_def arm_reset_def async_track_point_in_time_def cancel_timer_def
  schedule_next_prayer_def arm_wakeup_def target_time_def localize_def minus_minutes_def
  plus_minutes_def dt_gt_def instant_def tomorrow_0001_def basename_def rstrip_slash_def
  stop_playback_def stop_mode_def reset_playing_def fire_timer_def prayer_callback_def
  midnight_refresh_def async_refresh_def handle_refresh_times_def async_setup_entry_def
  fresh_hass_def store_audio_file_def Let_def

lemma play_azan_duplicate:
  assumes "entry_store h = Some st" and "dedup_guard n st = None"
  shows "play_azan cfg env now n h = (Returned, h)"
  using assms by (simp add: play_azan_def)

lemma play_azan_guarded:
  assumes "entry_store h = Some st" and "dedup_guard n st = Some st1"
  shows "play_azan cfg env now n h =
           play_after_guard cfg env now n st1 (h\<lparr>entry_store := Some st1\<rparr>)"
  using assms by (simp add: play_azan_def)




lemma push_update_timers: "timers (push_update st h) = timers h"
  by (simp add: push_update_def split: option.split)




lemma dedup_guard_no_data:
  assumes "coordinator_data st = None"
  shows "dedup_guard n st = Some st"
  using assms by (simp add: dedup_guard_def)





lemma scenario_D_effects:
  "effects (snd (play_azan (example_config (Some ''media_player.hall'')) (example_env True)
      (local_at 100 4 50) ''Fajr''
      (example_hass [example_prayer ''Fajr'' 5 0, example_prayer ''Dhuhr'' 12 0] {}
         (Some ''/config/www/azan/azan.mp3'')))) =
   [Updated_Data,
    Service_Call (Play_Media ''media_player.hall'' ''http://ha.local:8123/local/azan/azan.mp3'')]"
  by (simp add: model_defs example_defs)



section \<open>A playback call that fails\<close>

lemma play_after_guard_no_audio:
  assumes "pick_audio_file n st = None \<or> pick_audio_file n st = Some []
           \<or> (\<exists>f. pick_audio_file n st = Some f \<and> \<not> path_exists env f)"
  shows "play_after_guard cfg env now n st h = (Returned, h)"
  using assms by (auto simp add: play_after_guard_def)

lemma play_after_guard_starts:
  assumes "pick_audio_file n st = Some f" and "f \<noteq> []" and "path_exists env f"
    and "build_base_url cfg env (play_mode cfg) = Some b"
  shows "play_after_guard cfg env now n st h =
           (Returned, start_playback cfg env now n (b @ ''/local/azan/'' @ basename f) st h)"
  using assms by (simp add: play_after_guard_def)

lemma start_playback_raised:
  assumes "dispatch_playback cfg env (play_mode cfg) url = Call_Raised cs"
  shows "entry_store (start_playback cfg env now n url st h) = Some (idle st)
         \<and> timers (start_playback cfg env now n url st h) = timers h
         \<and> next_handle (start_playback cfg env now n url st h) = next_handle h"
  using assms
  by (simp add: start_playback_def Let_def push_update_def issue_def idle_def split: option.split)

lemma dedup_guard_fields:
  assumes "dedup_guard n st = Some st1"
  shows "is_playing st1 = is_playing st \<and> currently_playing st1 = currently_playing st
         \<and> audio_file st1 = audio_file st \<and> fajr_audio_file st1 = fajr_audio_file st
         \<and> unsub_timer st1 = unsub_timer st \<and> playback_reset_unsub st1 = playback_reset_unsub st"
  using assms by (auto simp add: dedup_guard_def split: option.splits if_splits)

lemma dedup_guard_marks:
  assumes "dedup_guard n st = Some st1" and "coordinator_data st = Some d" and "n \<noteq> ''Test''"
  shows "coordinator_data st1 = Some (d\<lparr>played_today := insert n (played_today d)\<rparr>)"
  using assms by (auto simp add: dedup_guard_def split: if_splits)

text \<open>
  Claim C4. When a call of \<open>_play_azan\<close> passes the guard, finds its audio file and its
  URL, and a playback service call raises, the call returns with the playback status Idle
  (\<open>is_playing\<close> false, \<open>currently_playing\<close> cleared) and with the coordinator data the
  guard left: for a real name that is the played set with the name in it, so the name is
  not removed and the guard will stop a second attempt the same day.
\<close>

theorem play_azan_failed_call_returns_to_idle:
  assumes "entry_store h = Some st" and "dedup_guard n st = Some st1"
    and "pick_audio_file n st1 = Some f" and "f \<noteq> []" and "path_exists env f"
    and "build_base_url cfg env (play_mode cfg) = Some b"
    and "dispatch_playback cfg env (play_mode cfg) (b @ ''/local/azan/'' @ basename f)
           = Call_Raised cs"
  shows "fst (play_azan cfg env now n h) = Returned
       \<and> entry_store (snd (play_azan cfg env now n h)) = Some (idle st1)
       \<and> \<not> is_playing (idle st1) \<and> currently_playing (idle st1) = None
       \<and> coordinator_data (idle st1) = coordinator_data st1
       \<and> (\<forall>d. coordinator_data st = Some d \<and> n \<noteq> ''Test'' \<longrightarrow>
             coordinator_data (idle st1) = Some (d\<lparr>played_today := insert n (played_today d)\<rparr>))"
proof -
  have run: "play_azan cfg env now n h =
      (Returned, start_playback cfg env now n (b @ ''/local/azan/'' @ basename f) st1
                   (h\<lparr>entry_store := Some st1\<rparr>))"
    using assms(1-6) by (simp add: play_azan_guarded play_after_guard_starts)
  have "entry_store (snd (play_azan cfg env now n h)) = Some (idle st1)"
    using start_playback_raised[OF assms(7)] by (simp add: run)
  moreover have "coordinator_data (idle st1) = Some (d\<lparr>played_today := insert n (played_today d)\<rparr>)"
    if "coordinator_data st = Some d" "n \<noteq> ''Test''" for d
    using dedup_guard_marks[OF assms(2) that] by (simp add: idle_def)
  ultimately show ?thesis by (simp add: run idle_def)
qed

lemma scenario_E_guard:
  "dedup_guard ''Maghrib''
     (example_store [example_prayer ''Maghrib'' 18 0, example_prayer ''Isha'' 19 30] {}
        (Some ''/config/www/azan/azan.mp3''))
   = Some (example_store [example_prayer ''Maghrib'' 18 0, example_prayer ''Isha'' 19 30]
             {''Maghrib''} (Some ''/config/www/azan/azan.mp3''))"
  by (simp add: dedup_guard_def example_store_def initial_store_def)

text \<open>
  Scenario E of the specification: the playback call for Maghrib raises. The store ends
  idle, with Maghrib in the played set.
\<close>

theorem play_azan_scenario_E:
  "entry_store (snd (play_azan (example_config (Some ''media_player.hall'')) (example_env False)
      (local_at 100 17 50) ''Maghrib''
      (example_hass [example_prayer ''Maghrib'' 18 0, example_prayer ''Isha'' 19 30] {}
         (Some ''/config/www/azan/azan.mp3''))))
   = Some (example_store [example_prayer ''Maghrib'' 18 0, example_prayer ''Isha'' 19 30]
             {''Maghrib''} (Some ''/config/www/azan/azan.mp3''))"
  using play_azan_failed_call_returns_to_idle
    [of "example_hass [example_prayer ''Maghrib'' 18 0, example_prayer ''Isha'' 19 30] {}
           (Some ''/config/www/azan/azan.mp3'')"
        "example_store [example_prayer ''Maghrib'' 18 0, example_prayer ''Isha'' 19 30] {}
           (Some ''/config/www/azan/azan.mp3'')"
        "''Maghrib''"
        "example_store [example_prayer ''Maghrib'' 18 0, example_prayer ''Isha'' 19 30]
           {''Maghrib''} (Some ''/config/www/azan/azan.mp3'')"
        "''/config/www/azan/azan.mp3''" "example_env False"
        "example_config (Some ''media_player.hall'')" "''http://ha.local:8123''"
        "[Play_Media ''media_player.hall'' ''http://ha.local:8123/local/azan/azan.mp3'']"
        "local_at 100 17 50"]
    scenario_E_guard
  by (simp add: example_hass_def example_store_def example_config_def example_env_def
        initial_store_def pick_audio_file_def build_base_url_def play_mode_def
        dispatch_playback_def basename_def idle_def)

section \<open>The choice of the audio file\<close>

lemma pick_audio_file_guarded:
  assumes "dedup_guard n st = Some st1"
  shows "pick_audio_file n st1 = pick_audio_file n st"
  using dedup_guard_fields[OF assms] by (simp add: pick_audio_file_def)

text \<open>
  Claim C10. For a call of \<open>_play_azan\<close> that passes the guard, the audio file chosen is
  the stored Fajr file exactly when the name is Fajr and a Fajr file is stored (a non-empty
  path), and the general azan file otherwise. When the chosen file is unset, empty or not
  on disk, the call returns right after the guard: no effect is issued, no timer changes,
  the playback status is what it was, and a real name stays marked in \<open>played_today\<close>.
  When the file is there and a base URL is found, playback starts for the URL that ends in
  the chosen file's base name.
\<close>

theorem play_azan_audio_file_choice:
  assumes "entry_store h = Some st" and "dedup_guard n st = Some st1"
  shows "pick_audio_file n st1 =
           (if n = ''Fajr'' \<and> truthy (fajr_audio_file st) then fajr_audio_file st
            else audio_file st)
       \<and> (pick_audio_file n st1 = None \<or> pick_audio_file n st1 = Some []
            \<or> (\<exists>f. pick_audio_file n st1 = Some f \<and> \<not> path_exists env f) \<longrightarrow>
          play_azan cfg env now n h = (Returned, h\<lparr>entry_store := Some st1\<rparr>)
          \<and> effects (snd (play_azan cfg env now n h)) = effects h
          \<and> timers (snd (play_azan cfg env now n h)) = timers h
          \<and> is_playing st1 = is_playing st \<and> currently_playing st1 = currently_playing st
          \<and> (\<forall>d. coordinator_data st = Some d \<and> n \<noteq> ''Test'' \<longrightarrow>
                coordinator_data st1 = Some (d\<lparr>played_today := insert n (played_today d)\<rparr>)))
       \<and> (\<forall>f b. pick_audio_file n st1 = Some f \<and> f \<noteq> [] \<and> path_exists env f
                \<and> build_base_url cfg env (play_mode cfg) = Some b \<longrightarrow>
          play_azan cfg env now n h =
            (Returned,
             start_playback cfg env now n (b @ ''/local/azan/'' @ basename f) st1
               (h\<lparr>entry_store := Some st1\<rparr>)))"
proof -
  have choice: "pick_audio_file n st1 =
           (if n = ''Fajr'' \<and> truthy (fajr_audio_file st) then fajr_audio_file st
            else audio_file st)"
    using pick_audio_file_guarded[OF assms(2)] by (simp add: pick_audio_file_def)
  have run: "play_azan cfg env now n h =
      play_after_guard cfg env now n st1 (h\<lparr>entry_store := Some st1\<rparr>)"
    using assms by (rule play_azan_guarded)
  have none: "play_azan cfg env now n h = (Returned, h\<lparr>entry_store := Some st1\<rparr>)"
    if "pick_audio_file n st1 = None \<or> pick_audio_file n st1 = Some []
            \<or> (\<exists>f. pick_audio_file n st1 = Some f \<and> \<not> path_exists env f)"
    using play_after_guard_no_audio[OF that] by (simp add: run)
  have marks: "coordinator_data st1 = Some (d\<lparr>played_today := insert n (played_today d)\<rparr>)"
    if "coordinator_data st = Some d" "n \<noteq> ''Test''" for d
    using dedup_guard_marks[OF assms(2) that] .
  have starts: "play_azan cfg env now n h =
            (Returned,
             start_playback cfg env now n (b @ ''/local/azan/'' @ basename f) st1
               (h\<lparr>entry_store := Some st1\<rparr>))"
    if "pick_audio_file n st1 = Some f" "f \<noteq> []" "path_exists env f"
       "build_base_url cfg env (play_mode cfg) = Some b" for f b
    using play_after_guard_starts[OF that] by (simp add: run)
  show ?thesis
    using choice none marks starts dedup_guard_fields[OF assms(2)]
    by (intro conjI impI allI) auto
qed

text \<open>
  With a Fajr file stored, a Fajr trigger plays \<open>fajr_azan.mp3\<close>; with no audio file at
  all, a Fajr trigger only marks Fajr as played.
\<close>

theorem play_azan_fajr_file_examples:
  "effects (snd (play_azan (example_config (Some ''media_player.hall'')) (example_env True)
      (local_at 100 4 50) ''Fajr''
      (store_audio_file True ''/config/www/azan/fajr_azan.mp3''
        (example_hass [example_prayer ''Fajr'' 5 0] {} (Some ''/config/www/azan/azan.mp3''))))) =
   [Updated_Data,
    Service_Call (Play_Media ''media_player.hall''
       ''http://ha.local:8123/local/azan/fajr_azan.mp3'')]
   \<and> play_azan (example_config (Some ''media_player.hall'')) (example_env True)
      (local_at 100 4 50) ''Fajr'' (example_hass [example_prayer ''Fajr'' 5 0] {} None) =
     (Returned, example_hass [example_prayer ''Fajr'' 5 0] {''Fajr''} None)"
proof -
  let ?cfg = "example_config (Some ''media_player.hall'')"
  let ?st = "(example_store [example_prayer ''Fajr'' 5 0] {} (Some ''/config/www/azan/azan.mp3''))
               \<lparr>fajr_audio_file := Some ''/config/www/azan/fajr_azan.mp3''\<rparr>"
  let ?st1 = "(example_store [example_prayer ''Fajr'' 5 0] {''Fajr''}
                 (Some ''/config/www/azan/azan.mp3''))
               \<lparr>fajr_audio_file := Some ''/config/www/azan/fajr_azan.mp3''\<rparr>"
  let ?h = "store_audio_file True ''/config/www/azan/fajr_azan.mp3''
        (example_hass [example_prayer ''Fajr'' 5 0] {} (Some ''/config/www/azan/azan.mp3''))"
  have s: "entry_store ?h = Some ?st"
    by (simp add: store_audio_file_def example_hass_def)
  have g: "dedup_guard ''Fajr'' ?st = Some ?st1"
    by (simp add: dedup_guard_def example_store_def initial_store_def)
  have p: "pick_audio_file ''Fajr'' ?st1 = Some ''/config/www/azan/fajr_azan.mp3''"
    by (simp add: pick_audio_file_def example_store_def initial_store_def)
  have u: "build_base_url ?cfg (example_env True) (play_mode ?cfg) = Some ''http://ha.local:8123''"
    by (simp add: build_base_url_def play_mode_def example_config_def example_env_def)
  have first: "play_azan ?cfg (example_env True) (local_at 100 4 50) ''Fajr'' ?h =
     (Returned, start_playback ?cfg (example_env True) (local_at 100 4 50) ''Fajr''
        (''http://ha.local:8123'' @ ''/local/azan/'' @ basename ''/config/www/azan/fajr_azan.mp3'')
        ?st1 (?h\<lparr>entry_store := Some ?st1\<rparr>))"
    using play_azan_audio_file_choice[OF s g, of "example_env True" ?cfg "local_at 100 4 50"] p u
    by (simp add: example_env_def)
  let ?s0 = "example_store [example_prayer ''Fajr'' 5 0] {} None"
  let ?s1 = "example_store [example_prayer ''Fajr'' 5 0] {''Fajr''} None"
  let ?h0 = "example_hass [example_prayer ''Fajr'' 5 0] {} None"
  have s0: "entry_store ?h0 = Some ?s0" by (simp add: example_hass_def)
  have g0: "dedup_guard ''Fajr'' ?s0 = Some ?s1"
    by (simp add: dedup_guard_def example_store_def initial_store_def)
  have p0: "pick_audio_file ''Fajr'' ?s1 = None"
    by (simp add: pick_audio_file_def example_store_def initial_store_def)
  have second: "play_azan ?cfg (example_env True) (local_at 100 4 50) ''Fajr'' ?h0 =
     (Returned, example_hass [example_prayer ''Fajr'' 5 0] {''Fajr''} None)"
    using play_azan_audio_file_choice[OF s0 g0, of "example_env True" ?cfg "local_at 100 4 50"] p0
    by (simp add: example_hass_def)
  show ?thesis
    by (simp add: first second)
       (simp add: model_defs example_defs)
qed

section \<open>Triggers that end early\<close>

lemma maghrib_armed_timers:
  "timers (maghrib_armed audio) =
     [(0, local_at 100 17 50, Prayer_Callback (example_prayer ''Maghrib'' 18 0))]"
  by (simp add: maghrib_armed_def model_defs example_defs)

text \<open>
  Claim C1 says that every trigger, whatever its outcome, ends with a new wake-up armed.
  The code calls \<open>_schedule_next_prayer\<close> only at the end of the path on which the
  playback calls returned. Here the wake-up for Maghrib fires at 17:50 and Isha at 19:30 is
  still to come (it qualifies). When the playback call raises, and likewise when no audio
  file is stored, no listener at all is armed afterwards; when the call returns, the reset
  timer and the wake-up for Isha are armed.
\<close>

theorem failed_trigger_arms_no_wakeup:
  "timers (fire_timer (example_config (Some ''media_player.hall'')) (example_env False)
             (local_at 100 17 50) None 0 (maghrib_armed (Some ''/config/www/azan/azan.mp3''))) = []
   \<and> timers (fire_timer (example_config (Some ''media_player.hall'')) (example_env True)
             (local_at 100 17 50) None 0 (maghrib_armed None)) = []
   \<and> eligible 10 (local_at 100 17 50) {''Maghrib''} (example_prayer ''Isha'' 19 30)
   \<and> timers (fire_timer (example_config (Some ''media_player.hall'')) (example_env True)
             (local_at 100 17 50) None 0 (maghrib_armed (Some ''/config/www/azan/azan.mp3''))) =
       [(1, local_at 100 17 55, Reset_Playing ''Maghrib''),
        (2, local_at 100 19 20, Prayer_Callback (example_prayer ''Isha'' 19 30))]"
  by (simp add: maghrib_armed_def eligible_def model_defs example_defs)

text \<open>
  Claim C6 says that an early return of \<open>_play_azan\<close> never leaves the status at Playing.
  The code sets the status before the \<open>try\<close> block and returns from inside it when no
  media player is configured: a Test trigger with an audio file on disk and no media player
  ends with \<open>is_playing\<close> true and \<open>currently_playing\<close> Test, no service call issued and
  no reset timer armed.
\<close>

theorem unconfigured_player_leaves_playing:
  "play_azan (example_config None) (example_env True) (local_at 100 4 0) ''Test''
     (example_hass [] {} (Some ''/config/www/azan/azan.mp3'')) =
   (Returned,
    (example_hass [] {} (Some ''/config/www/azan/azan.mp3''))
      \<lparr>entry_store := Some ((example_store [] {} (Some ''/config/www/azan/azan.mp3''))
                              \<lparr>is_playing := True, currently_playing := Some ''Test''\<rparr>),
       effects := [Updated_Data]\<rparr>)"
  by (simp add: model_defs example_defs)

section \<open>Stopping playback\<close>

text \<open>
  Claim C5 as stated has \<open>_stop_playback\<close> cancel the armed playback-reset timer. After a
  Test trigger that played, the reset timer with handle 0 is armed; after the stop it is
  armed still, and the store still holds its handle.
\<close>

theorem stop_playback_keeps_reset_timer:
  "filter is_reset
     (timers (stop_playback (example_config (Some ''media_player.hall'')) test_playing))
     = [(0, local_at 100 4 5, Reset_Playing ''Test'')]
   \<and> map_option playback_reset_unsub
        (entry_store (stop_playback (example_config (Some ''media_player.hall'')) test_playing))
     = Some (Some 0)"
  by (simp add: test_playing_def model_defs example_defs)

text \<open>
  Claim C5, amended. Every call of \<open>_stop_playback\<close> sets the playback status to Idle and
  leaves the rest of the store (the played set and both timer handles included) and every
  armed listener as they were: the playback-reset timer stays armed, the wake-up timer is
  untouched, and nothing is scheduled.
\<close>

theorem stop_playback_frame:
  "entry_store (stop_playback cfg h) = map_option idle (entry_store h)
   \<and> timers (stop_playback cfg h) = timers h
   \<and> next_handle (stop_playback cfg h) = next_handle h"
  by (simp add: stop_playback_def Let_def push_update_def issue_def idle_def split: option.split)

section \<open>The discipline of the timer handles\<close>

lemma is_reset_iff: "is_reset e = (\<not> is_wakeup e)"
  by (cases e rule: is_wakeup.cases) simp_all

lemma handles_ok_cancel:
  assumes "handles_ok u r ts nh"
  shows "handles_ok u r (filter (\<lambda>e. fst e \<noteq> k) ts) nh"
  using assms by (auto simp add: handles_ok_def list_all_iff distinct_map_filter)

lemma handles_ok_forget_wakeup:
  assumes "handles_ok (Some k) r ts nh"
  shows "handles_ok None r (filter (\<lambda>e. fst e \<noteq> k) ts) nh"
  using assms by (auto simp add: handles_ok_def list_all_iff distinct_map_filter)

lemma handles_ok_arm_wakeup:
  assumes "handles_ok None r ts nh" and "is_wakeup (nh, t, a)"
  shows "handles_ok (Some nh) r (ts @ [(nh, t, a)]) (Suc nh)"
  using assms
  by (auto simp add: handles_ok_def list_all_iff is_reset_iff split: option.splits)

lemma handles_ok_forget_reset:
  assumes "handles_ok u (Some k) ts nh"
  shows "handles_ok u None (filter (\<lambda>e. fst e \<noteq> k) ts) nh"
  using assms by (auto simp add: handles_ok_def list_all_iff distinct_map_filter)

lemma handles_ok_arm_reset:
  assumes "handles_ok u None ts nh" and "is_reset (nh, t, a)"
  shows "handles_ok u (Some nh) (ts @ [(nh, t, a)]) (Suc nh)"
  using assms
  by (auto simp add: handles_ok_def list_all_iff is_reset_iff split: option.splits)

lemma handles_ok_wakeup_cancelled:
  assumes "handles_ok (unsub_timer st) r (timers h) nh"
  shows "handles_ok None r (wakeup_cancelled st h) nh"
  using assms handles_ok_forget_wakeup
  by (cases "unsub_timer st") (auto simp add: wakeup_cancelled_def)

lemma at_most_one:
  assumes "distinct (map fst ts)" and "list_all (\<lambda>e. P e = (u = Some (fst e))) ts"
  shows "length (filter P ts) \<le> 1"
  using assms
proof (induction ts)
  case Nil
  show ?case by simp
next
  case (Cons e ts)
  show ?case
  proof (cases "P e")
    case True
    then have u: "u = Some (fst e)" using Cons.prems(2) by simp
    have "\<not> P e'" if "e' \<in> set ts" for e'
    proof
      assume "P e'"
      then have "u = Some (fst e')" using Cons.prems(2) that by (simp add: list_all_iff)
      then have "fst e' = fst e" using u by simp
      then show False using Cons.prems(1) that by (metis distinct.simps(2) image_eqI list.simps(9) set_map)
    qed
    then have "filter P ts = []" by (simp add: filter_empty_conv)
    then show ?thesis using True by simp
  next
    case False
    then show ?thesis using Cons by simp
  qed
qed

lemma handles_ok_at_most_one:
  assumes "handles_ok u r ts nh"
  shows "length (filter is_wakeup ts) \<le> 1 \<and> length (filter is_reset ts) \<le> 1"
  using assms at_most_one[of ts is_wakeup u] at_most_one[of ts is_reset r]
  by (simp add: handles_ok_def)


section \<open>The invariant of a schedule instance\<close>

lemma hass_inv_iff:
  assumes "entry_store h = Some st"
  shows "hass_inv h =
           (handles_ok (unsub_timer st) (playback_reset_unsub st) (timers h) (next_handle h)
            \<and> is_playing st = (currently_playing st \<noteq> None))"
  using assms by (simp add: hass_inv_def)

lemma hass_inv_store:
  assumes "hass_inv h"
  obtains st where "entry_store h = Some st"
    and "handles_ok (unsub_timer st) (playback_reset_unsub st) (timers h) (next_handle h)"
    and "is_playing st = (currently_playing st \<noteq> None)"
  using assms by (cases "entry_store h") (auto simp add: hass_inv_def)

lemma schedule_next_prayer_no_data:
  assumes "entry_store h = Some st" and "coordinator_data st = None"
  shows "schedule_next_prayer cfg now h =
           h\<lparr>entry_store := Some (st\<lparr>unsub_timer := None\<rparr>), timers := wakeup_cancelled st h\<rparr>"
proof (cases "unsub_timer st")
  case None
  then have "st\<lparr>unsub_timer := None\<rparr> = st" by simp
  then show ?thesis
    using assms None by (simp add: schedule_next_prayer_def wakeup_cancelled_def)
next
  case (Some k)
  then show ?thesis
    using assms by (simp add: schedule_next_prayer_def wakeup_cancelled_def cancel_timer_def)
qed

lemma schedule_next_prayer_cases:
  assumes "entry_store h = Some st"
  shows "schedule_next_prayer cfg now h =
           h\<lparr>entry_store := Some (st\<lparr>unsub_timer := None\<rparr>), timers := wakeup_cancelled st h\<rparr>
       \<or> (\<exists>t a. is_wakeup (next_handle h, t, a)
            \<and> schedule_next_prayer cfg now h =
                h\<lparr>entry_store := Some (st\<lparr>unsub_timer := Some (next_handle h)\<rparr>),
                  timers := wakeup_cancelled st h @ [(next_handle h, t, a)],
                  next_handle := Suc (next_handle h)\<rparr>)"
proof (cases "coordinator_data st")
  case None
  then show ?thesis using assms by (simp add: schedule_next_prayer_no_data)
next
  case (Some d)
  show ?thesis
  proof (cases "find_next_prayer (conf_offset_minutes cfg) now (played_today d) (prayers d)")
    case None
    have "is_wakeup (next_handle h, tomorrow_0001 now, Midnight_Refresh)" by simp
    then show ?thesis
      using schedule_next_prayer_rollover[OF assms Some None] by blast
  next
    case (Some p)
    have "is_wakeup (next_handle h, target_time (conf_offset_minutes cfg) now p, Prayer_Callback p)"
      by simp
    then show ?thesis
      using schedule_next_prayer_found[OF assms \<open>coordinator_data st = Some d\<close> Some] by blast
  qed
qed

lemma hass_inv_schedule_next_prayer:
  assumes "hass_inv h"
  shows "hass_inv (schedule_next_prayer cfg now h)"
proof -
  from assms obtain st where st: "entry_store h = Some st"
    and ok: "handles_ok (unsub_timer st) (playback_reset_unsub st) (timers h) (next_handle h)"
    and co: "is_playing st = (currently_playing st \<noteq> None)"
    by (rule hass_inv_store)
  have none: "handles_ok None (playback_reset_unsub st) (wakeup_cancelled st h) (next_handle h)"
    using ok by (rule handles_ok_wakeup_cancelled)
  from schedule_next_prayer_cases[OF st, of cfg now] show ?thesis
  proof
    assume "schedule_next_prayer cfg now h =
           h\<lparr>entry_store := Some (st\<lparr>unsub_timer := None\<rparr>), timers := wakeup_cancelled st h\<rparr>"
    then show ?thesis using none co by (simp add: hass_inv_def)
  next
    assume "\<exists>t a. is_wakeup (next_handle h, t, a)
            \<and> schedule_next_prayer cfg now h =
                h\<lparr>entry_store := Some (st\<lparr>unsub_timer := Some (next_handle h)\<rparr>),
                  timers := wakeup_cancelled st h @ [(next_handle h, t, a)],
                  next_handle := Suc (next_handle h)\<rparr>"
    then obtain t a where w: "is_wakeup (next_handle h, t, a)"
      and eq: "schedule_next_prayer cfg now h =
                h\<lparr>entry_store := Some (st\<lparr>unsub_timer := Some (next_handle h)\<rparr>),
                  timers := wakeup_cancelled st h @ [(next_handle h, t, a)],
                  next_handle := Suc (next_handle h)\<rparr>"
      by blast
    show ?thesis
      using handles_ok_arm_wakeup[OF none w] co by (simp add: eq hass_inv_def)
  qed
qed

lemma arm_reset_eq:
  "arm_reset now n st h =
     h\<lparr>entry_store := Some (st\<lparr>playback_reset_unsub := Some (next_handle h)\<rparr>),
       timers := (case playback_reset_unsub st of
                    None \<Rightarrow> timers h
                  | Some k \<Rightarrow> filter (\<lambda>e. fst e \<noteq> k) (timers h))
                 @ [(next_handle h, plus_minutes now 5, Reset_Playing n)],
       next_handle := Suc (next_handle h)\<rparr>"
  by (cases "playback_reset_unsub st")
     (simp_all add: arm_reset_def async_track_point_in_time_def cancel_timer_def Let_def)

lemma handles_ok_reset_cancelled:
  assumes "handles_ok u r ts nh"
  shows "handles_ok u None (case r of None \<Rightarrow> ts | Some k \<Rightarrow> filter (\<lambda>e. fst e \<noteq> k) ts) nh"
  using assms handles_ok_forget_reset by (cases r) auto

lemma hass_inv_arm_reset:
  assumes "handles_ok (unsub_timer st) (playback_reset_unsub st) (timers h) (next_handle h)"
    and "is_playing st = (currently_playing st \<noteq> None)"
  shows "hass_inv (arm_reset now n st h)"
  using handles_ok_arm_reset[OF handles_ok_reset_cancelled[OF assms(1)],
          of "plus_minutes now 5" "Reset_Playing n"] assms(2)
  by (simp add: arm_reset_eq hass_inv_def)

lemma hass_inv_start_playback:
  assumes "handles_ok (unsub_timer st) (playback_reset_unsub st) (timers h) (next_handle h)"
  shows "hass_inv (start_playback cfg env now n url st h)"
proof (cases "dispatch_playback cfg env (play_mode cfg) url")
  case Not_Configured
  then show ?thesis
    using assms
    by (simp add: start_playback_def Let_def push_update_def hass_inv_def split: option.split)
next
  case (Call_Raised cs)
  then show ?thesis
    using assms
    by (simp add: start_playback_def Let_def push_update_def issue_def hass_inv_def
          split: option.split)
next
  case (Call_Done cs)
  have "hass_inv (arm_reset now n (st\<lparr>is_playing := True, currently_playing := Some n\<rparr>)
          (issue cs (push_update (st\<lparr>is_playing := True, currently_playing := Some n\<rparr>)
             (h\<lparr>entry_store := Some (st\<lparr>is_playing := True, currently_playing := Some n\<rparr>)\<rparr>))))"
    using assms
    by (intro hass_inv_arm_reset) (simp_all add: issue_def push_update_def split: option.split)
  then show ?thesis
    using Call_Done by (simp add: start_playback_def Let_def hass_inv_schedule_next_prayer)
qed

lemma hass_inv_play_after_guard:
  assumes "handles_ok (unsub_timer st) (playback_reset_unsub st) (timers h) (next_handle h)"
    and "is_playing st = (currently_playing st \<noteq> None)" and "entry_store h = Some st"
  shows "hass_inv (snd (play_after_guard cfg env now n st h))"
proof -
  have "hass_inv h" using assms by (simp add: hass_inv_def)
  then show ?thesis
    using hass_inv_start_playback[OF assms(1)]
    by (simp add: play_after_guard_def split: option.split)
qed

lemma hass_inv_play_azan:
  assumes "hass_inv h"
  shows "hass_inv (snd (play_azan cfg env now n h))"
proof -
  from assms obtain st where st: "entry_store h = Some st"
    and ok: "handles_ok (unsub_timer st) (playback_reset_unsub st) (timers h) (next_handle h)"
    and co: "is_playing st = (currently_playing st \<noteq> None)"
    by (rule hass_inv_store)
  show ?thesis
  proof (cases "dedup_guard n st")
    case None
    then show ?thesis using st assms by (simp add: play_azan_duplicate)
  next
    case (Some st1)
    have "hass_inv (snd (play_after_guard cfg env now n st1 (h\<lparr>entry_store := Some st1\<rparr>)))"
      using ok co dedup_guard_fields[OF Some]
      by (intro hass_inv_play_after_guard) simp_all
    then show ?thesis using st Some by (simp add: play_azan_guarded)
  qed
qed

lemma hass_inv_stop_playback:
  assumes "hass_inv h"
  shows "hass_inv (stop_playback cfg h)"
  using assms
  by (auto simp add: hass_inv_def stop_playback_def Let_def push_update_def issue_def
        split: option.splits)

lemma hass_inv_async_refresh:
  assumes "hass_inv h"
  shows "hass_inv (async_refresh fetched h)"
  using assms by (auto simp add: hass_inv_def async_refresh_def split: option.splits)

lemma hass_inv_store_audio_file:
  assumes "hass_inv h"
  shows "hass_inv (store_audio_file fajr path h)"
  using assms by (auto simp add: hass_inv_def store_audio_file_def split: option.splits)

lemma hass_inv_handle_refresh_times:
  assumes "hass_inv h"
  shows "hass_inv (handle_refresh_times cfg now fetched h)"
  using assms hass_inv_schedule_next_prayer[OF hass_inv_async_refresh[OF assms]]
  by (simp add: handle_refresh_times_def split: option.split)

lemma hass_inv_cancel_timer:
  assumes "hass_inv h"
  shows "hass_inv (cancel_timer k h)"
  using assms handles_ok_cancel
  by (auto simp add: hass_inv_def cancel_timer_def split: option.splits)

lemma hass_inv_reset_playing:
  assumes "hass_inv h"
  shows "hass_inv (reset_playing n h)"
  using assms
  by (auto simp add: hass_inv_def reset_playing_def Let_def push_update_def split: option.splits)

lemma hass_inv_prayer_callback:
  assumes "hass_inv h"
  shows "hass_inv (prayer_callback cfg env now p h)"
  using hass_inv_play_azan[OF assms] hass_inv_schedule_next_prayer[OF assms] assms
  by (simp add: prayer_callback_def split: option.split)

lemma hass_inv_midnight_refresh:
  assumes "hass_inv h"
  shows "hass_inv (midnight_refresh cfg now fetched h)"
proof -
  have "hass_inv (h\<lparr>effects := effects h @ [Refresh_Task]\<rparr>)"
    using assms by (cases "entry_store h") (simp_all add: hass_inv_def)
  then show ?thesis
    unfolding midnight_refresh_def
    by (intro hass_inv_schedule_next_prayer hass_inv_async_refresh)
qed

lemma hass_inv_fire_timer:
  assumes "hass_inv h"
  shows "hass_inv (fire_timer cfg env now fetched k h)"
  using assms hass_inv_cancel_timer[OF assms, of k]
  by (auto simp add: fire_timer_def hass_inv_prayer_callback hass_inv_midnight_refresh
        hass_inv_reset_playing split: option.split action.split)

lemma hass_inv_async_setup_entry: "hass_inv (async_setup_entry cfg now fetched fresh_hass)"
proof (cases fetched)
  case None
  then show ?thesis
    by (simp add: async_setup_entry_def fresh_hass_def initial_store_def hass_inv_def
          handles_ok_def)
next
  case (Some d)
  have "hass_inv (async_refresh (Some d) (fresh_hass\<lparr>entry_store := Some initial_store\<rparr>))"
    by (simp add: async_refresh_def fresh_hass_def initial_store_def hass_inv_def
          handles_ok_def)
  then show ?thesis
    using Some by (simp add: async_setup_entry_def hass_inv_schedule_next_prayer)
qed

lemma reachable_hass_inv:
  assumes "reachable h"
  shows "hass_inv h"
  using assms
proof (induction rule: reachable.induct)
  case (after_setup cfg now fetched)
  show ?case by (rule hass_inv_async_setup_entry)
next
  case (after_trigger h cfg env now n)
  then show ?case by (simp add: hass_inv_play_azan)
next
  case (after_stop h cfg)
  then show ?case by (simp add: hass_inv_stop_playback)
next
  case (after_refresh h cfg now fetched)
  then show ?case by (simp add: hass_inv_handle_refresh_times)
next
  case (after_fire h cfg env now fetched k)
  then show ?case by (simp add: hass_inv_fire_timer)
next
  case (after_refreshed h fetched)
  then show ?case by (simp add: hass_inv_async_refresh)
next
  case (after_downloaded h fajr path)
  then show ?case by (simp add: hass_inv_store_audio_file)
qed


lemma reachable_example_superseded: "reachable example_superseded"
  unfolding example_superseded_def example_setup_def
  by (intro reachable.after_trigger reachable.after_downloaded reachable.after_setup)

lemma example_superseded_store:
  "entry_store example_superseded =
     Some ((example_store [example_prayer ''Fajr'' 5 0, example_prayer ''Dhuhr'' 12 0] {''Fajr''}
              (Some ''/config/www/azan/azan.mp3''))
             \<lparr>is_playing := True, currently_playing := Some ''Fajr'',
              unsub_timer := Some 4, playback_reset_unsub := Some 3\<rparr>)"
  by (simp add: example_superseded_def example_setup_def model_defs example_defs)

section \<open>One timer of each kind\<close>

text \<open>
  Claim C7. In every state reached from setup by triggers, stops, refreshes, timers that
  fire, refresh tasks that finish and downloads that finish, in any order and with any
  configuration and any answers of the outside, at most one wake-up timer and at most one
  playback-reset timer are armed. The two places that arm a timer cancel the handle held in
  the store first (\<open>schedule_next_prayer_cases\<close>, \<open>arm_reset_eq\<close>), and an armed timer of
  a kind always has the handle the store holds for that kind (\<open>reachable_hass_inv\<close>).
\<close>

theorem reachable_at_most_one_timer_of_each_kind:
  assumes "reachable h"
  shows "length (filter is_wakeup (timers h)) \<le> 1 \<and> length (filter is_reset (timers h)) \<le> 1"
proof -
  from reachable_hass_inv[OF assms] obtain st
    where "entry_store h = Some st"
      and ok: "handles_ok (unsub_timer st) (playback_reset_unsub st) (timers h) (next_handle h)"
      and "is_playing st = (currently_playing st \<noteq> None)"
    by (rule hass_inv_store)
  from ok show ?thesis by (rule handles_ok_at_most_one)
qed

text \<open>
  After setup, a Test trigger and a Fajr trigger, both of which played: the first wake-up
  (handle 0), the wake-up armed after Test (2) and the reset timer of Test (1) are gone; the
  reset timer of Fajr and the wake-up for Dhuhr are armed.
\<close>

theorem superseded_has_one_timer_of_each_kind:
  "length (filter is_wakeup (timers example_superseded)) \<le> 1
   \<and> length (filter is_reset (timers example_superseded)) \<le> 1
   \<and> timers example_superseded =
       [(3, local_at 100 4 55, Reset_Playing ''Fajr''),
        (4, local_at 100 11 50, Prayer_Callback (example_prayer ''Dhuhr'' 12 0))]"
proof -
  have "timers example_superseded =
       [(3, local_at 100 4 55, Reset_Playing ''Fajr''),
        (4, local_at 100 11 50, Prayer_Callback (example_prayer ''Dhuhr'' 12 0))]"
    by (simp add: example_superseded_def example_setup_def model_defs example_defs)
  then show ?thesis
    using reachable_at_most_one_timer_of_each_kind[OF reachable_example_superseded] by simp
qed

section \<open>A stale reset timer\<close>

text \<open>
  Claim C8. In a reachable state whose playback status is not \<open>Playing(x)\<close>, the callback
  \<open>_reset_playing\<close> bound to \<open>x\<close> changes nothing: the state after it is the state before
  it. When such a callback runs because its armed timer fires, the only change is that the
  one-shot timer that fired is no longer armed.
\<close>

theorem stale_reset_timer_is_a_no_op:
  assumes "reachable h" and "entry_store h = Some st" and "\<not> playing x st"
  shows "reset_playing x h = h
       \<and> (\<forall>k t cfg env now fetched.
            find (\<lambda>e. fst e = k) (timers h) = Some (k, t, Reset_Playing x) \<longrightarrow>
            fire_timer cfg env now fetched k h = cancel_timer k h)"
proof -
  from reachable_hass_inv[OF assms(1)] assms(2)
  have "is_playing st = (currently_playing st \<noteq> None)"
    by (simp add: hass_inv_def)
  then have stale: "currently_playing st \<noteq> Some x"
    using assms(3) by (auto simp add: playing_def)
  then have noop: "reset_playing x h = h"
    using assms(2) by (simp add: reset_playing_def)
  have "reset_playing x (cancel_timer k h) = cancel_timer k h" for k
    using assms(2) stale by (simp add: reset_playing_def cancel_timer_def)
  then show ?thesis
    using noop by (simp add: fire_timer_def)
qed

text \<open>
  The reset callback of the Test playback, run after Fajr has superseded Test, leaves the
  state as it is.
\<close>

theorem superseded_reset_timer_is_a_no_op:
  "reset_playing ''Test'' example_superseded = example_superseded"
  using stale_reset_timer_is_a_no_op
    [OF reachable_example_superseded example_superseded_store, of "''Test''"]
  by (simp add: playing_def)

end
